theory Spec2Isabelle
  imports Complex_Main "HOL-Library.Word"
begin

unbundle bit_operations_syntax

section \<open>Errors, timestamps and version strings\<close>

text \<open>
  The store reports failures as Go \<open>error\<close> values.  Every error the modelled code can
  return is a constructor here; \<open>BadRequest\<close> carries the message of \<open>dsserr.BadRequest\<close>.
\<close>

datatype error =
    ErrSyntax            \<comment> \<open>\<open>strconv.ErrSyntax\<close>\<close>
  | ErrRange             \<comment> \<open>\<open>strconv.ErrRange\<close>\<close>
  | ErrTimestamp         \<comment> \<open>\<open>ptypes\<close>: timestamp outside years 1 to 9999\<close>
  | ErrNoRows            \<comment> \<open>\<open>sql.ErrNoRows\<close>\<close>
  | ErrTxDone            \<comment> \<open>\<open>sql.ErrTxDone\<close>: statement on a finished transaction\<close>
  | ErrScanNull          \<comment> \<open>\<open>database/sql\<close>: converting NULL to string is unsupported\<close>
  | ErrCheckViolation    \<comment> \<open>a CHECK constraint of the schema rejected the row\<close>
  | ErrNotNull           \<comment> \<open>a NOT NULL constraint of the schema rejected the row\<close>
  | ErrTooManyRows nat   \<comment> \<open>\<open>fetchSubscription\<close>: "query returned n subscriptions"\<close>
  | AlreadyExists string
  | NotFound
  | VersionMismatch
  | BadRequest string
  | ErrMessage string    \<comment> \<open>\<open>errors.New\<close>, \<open>fmt.Errorf\<close>\<close>

type_synonym int64 = "64 word"
type_synonym uint64 = "64 word"

text \<open>
  A \<open>time.Time\<close> is modelled by the instant it denotes, in nanoseconds since the Unix
  epoch.  \<open>UnixNano\<close> computes \<open>sec * 1e9 + nsec\<close> in \<open>int64\<close>, so it wraps outside the
  representable range; \<open>time.Unix(sec, nsec)\<close> is the instant \<open>sec * 1e9 + nsec\<close>.
\<close>

type_synonym time = int

definition UnixNano :: "time \<Rightarrow> int64" where
  "UnixNano t = word_of_int t"

definition Unix :: "int64 \<Rightarrow> int64 \<Rightarrow> time" where
  "Unix sec nsec = sint sec * 1000000000 + sint nsec"

definition representable :: "time \<Rightarrow> bool" where
  "representable t \<longleftrightarrow> - (2 ^ 63) \<le> t \<and> t < 2 ^ 63"

subsection \<open>\<open>strconv.FormatUint\<close>, \<open>strconv.FormatInt\<close> and \<open>strconv.ParseUint\<close>\<close>

definition digits :: string where
  "digits = ''0123456789abcdefghijklmnopqrstuvwxyz''"

text \<open>
  \<open>formatBits\<close>: the digit loop of \<open>strconv\<close>, filling the buffer from its end.  For a
  power-of-two base the library shifts and masks, for base 10 it divides; both are this
  loop (\<open>u / b\<close>, \<open>u - q * b\<close>).  The bases used in the store are the constants 32 and 10,
  so the library's panic for a base outside 2..36 is never reached.
\<close>

function formatBits :: "uint64 \<Rightarrow> uint64 \<Rightarrow> string \<Rightarrow> string" where
  "formatBits b u a =
     (if 2 \<le> b \<and> b \<le> u then formatBits b (u div b) (digits ! unat (u mod b) # a)
      else digits ! unat u # a)"
  by pat_completeness auto
termination
proof (relation "measure (\<lambda>(b, u, a). unat u)")
  show "wf (measure (\<lambda>(b :: uint64, u :: uint64, a :: string). unat u))"
    by simp
next
  fix b u :: uint64 and a :: string
  assume h: "2 \<le> b \<and> b \<le> u"
  then have b2: "2 \<le> unat b" and bu: "unat b \<le> unat u"
    by (simp_all add: word_le_nat_alt)
  then have "unat u div unat b < unat u"
    by (intro div_less_dividend) auto
  then show "((b, u div b, digits ! unat (u mod b) # a), (b, u, a))
      \<in> measure (\<lambda>(b, u, a). unat u)"
    by (simp add: unat_div)
qed

declare formatBits.simps [simp del]

definition FormatUint :: "uint64 \<Rightarrow> nat \<Rightarrow> string" where
  "FormatUint i base = formatBits (of_nat base) i []"

definition FormatInt :: "int64 \<Rightarrow> nat \<Rightarrow> string" where
  "FormatInt i base =
     (if sint i < 0 then CHR ''-'' # formatBits (of_nat base) (- i) []
      else formatBits (of_nat base) i [])"

text \<open>
  The value of one byte as a digit, as \<open>ParseUint\<close> reads it: \<open>'0'..'9'\<close>, or a letter
  of either case (\<open>lower(c) = c | ('x' - 'X')\<close>).
\<close>

definition lower :: "nat \<Rightarrow> nat" where
  "lower c = c OR 32"

definition digitVal :: "char \<Rightarrow> nat option" where
  "digitVal c =
     (let x = (of_char c :: nat) in
      if 48 \<le> x \<and> x \<le> 57 then Some (x - 48)
      else if 97 \<le> lower x \<and> lower x \<le> 122 then Some (lower x - 97 + 10)
      else None)"

definition maxUint64 :: uint64 where
  "maxUint64 = - 1"

definition cutoff :: "nat \<Rightarrow> uint64" where
  "cutoff base = maxUint64 div of_nat base + 1"

fun parseLoop :: "nat \<Rightarrow> string \<Rightarrow> uint64 \<Rightarrow> error + uint64" where
  "parseLoop base [] n = Inr n"
| "parseLoop base (c # cs) n =
     (case digitVal c of
        None \<Rightarrow> Inl ErrSyntax
      | Some d \<Rightarrow>
          if base \<le> d then Inl ErrSyntax
          else if cutoff base \<le> n then Inl ErrRange
          else
            let n0 = n * of_nat base; n1 = n0 + of_nat d in
            if n1 < n0 \<or> maxUint64 < n1 then Inl ErrRange
            else parseLoop base cs n1)"

definition ParseUint :: "string \<Rightarrow> nat \<Rightarrow> error + uint64" where
  "ParseUint s base = (if s = [] then Inl ErrSyntax else parseLoop base s 0)"

subsection \<open>Version strings\<close>

definition versionBase :: nat where
  "versionBase = 32"

definition versionStringToTimestamp :: "string \<Rightarrow> error + time" where
  "versionStringToTimestamp s =
     (case ParseUint s versionBase of
        Inl err \<Rightarrow> Inl err
      | Inr nanos \<Rightarrow> Inr (Unix 0 nanos))"

definition timestampToVersionString :: "time \<Rightarrow> string" where
  "timestampToVersionString t = FormatUint (UnixNano t) versionBase"

section \<open>Wire messages\<close>

text \<open>
  A protobuf \<open>Timestamp\<close> and the two \<open>ptypes\<close> conversions.  Both validate the range
  0001-01-01 to 9999-12-31 and the nanosecond field; a nil message is invalid.
\<close>

record Timestamp =
  Seconds :: int
  Nanos :: int

definition minValidSeconds :: int where
  "minValidSeconds = - 62135596800"

definition maxValidSeconds :: int where
  "maxValidSeconds = 253402300800"

definition validateTimestamp :: "Timestamp option \<Rightarrow> error option" where
  "validateTimestamp p =
     (case p of
        None \<Rightarrow> Some ErrTimestamp
      | Some ts \<Rightarrow>
          if Seconds ts < minValidSeconds then Some ErrTimestamp
          else if maxValidSeconds \<le> Seconds ts then Some ErrTimestamp
          else if Nanos ts < 0 \<or> 1000000000 \<le> Nanos ts then Some ErrTimestamp
          else None)"

definition ptypes_Timestamp :: "Timestamp option \<Rightarrow> error + time" where
  "ptypes_Timestamp p =
     (case validateTimestamp p of
        Some err \<Rightarrow> Inl err
      | None \<Rightarrow>
          (case p of
             None \<Rightarrow> Inl ErrTimestamp
           | Some ts \<Rightarrow> Inr (Seconds ts * 1000000000 + Nanos ts)))"

definition TimestampProto :: "time \<Rightarrow> error + Timestamp" where
  "TimestampProto t =
     (let ts = \<lparr>Seconds = t div 1000000000, Nanos = t mod 1000000000\<rparr> in
      case validateTimestamp (Some ts) of
        Some err \<Rightarrow> Inl err
      | None \<Rightarrow> Inr ts)"

text \<open>
  \<open>dspb.Subscription\<close>.  \<open>pbs_Callbacks\<close> is the optional callbacks message, reduced to
  its one field; the generated getter returns the empty string on a nil message.
\<close>

record pb_Subscription =
  pbs_Id :: string
  pbs_Owner :: string
  pbs_Callbacks :: "string option"
  pbs_NotificationIndex :: "32 word"
  pbs_Version :: string
  pbs_Begins :: "Timestamp option"
  pbs_Expires :: "Timestamp option"

definition GetIdentificationServiceAreaUrl :: "string option \<Rightarrow> string" where
  "GetIdentificationServiceAreaUrl cb = (case cb of None \<Rightarrow> [] | Some u \<Rightarrow> u)"

text \<open>
  \<open>dspb.IdentificationServiceArea\<close> and its extents.  The spatial volume is carried
  opaquely.
\<close>

record pb_Volume4D =
  pbv_SpatialVolume :: "string option"
  pbv_TimeStart :: "Timestamp option"
  pbv_TimeEnd :: "Timestamp option"

record pb_IdentificationServiceArea =
  pbi_Id :: string
  pbi_Owner :: string
  pbi_FlightsUrl :: string
  pbi_Version :: string
  pbi_Extents :: "pb_Volume4D option"

record pb_SubscriptionState =
  pbn_NotificationIndex :: "32 word"
  pbn_Subscription :: string

record pb_SubscriberToNotify =
  pbn_Url :: string
  pbn_Subscriptions :: "pb_SubscriptionState list"

section \<open>Rows of the store\<close>

text \<open>
  The row structs of the store.  A \<open>pq.NullTime\<close> or \<open>sql.NullString\<close> is an option:
  \<open>None\<close> is SQL NULL (\<open>Valid = false\<close>).
\<close>

record subscriberRow =
  sbr_id :: string
  sbr_url :: string
  sbr_notificationIndex :: "32 word"

definition subscriberRow_toProtobuf :: "subscriberRow \<Rightarrow> error + pb_SubscriberToNotify" where
  "subscriberRow_toProtobuf sr =
     Inr \<lparr>pbn_Url = sbr_url sr,
          pbn_Subscriptions =
            [\<lparr>pbn_NotificationIndex = sbr_notificationIndex sr, pbn_Subscription = sbr_id sr\<rparr>]\<rparr>"

record identificationServiceAreaRow =
  isar_id :: string
  isar_owner :: string
  isar_url :: string
  isar_startsAt :: time
  isar_endsAt :: time
  isar_updatedAt :: time

definition identificationServiceAreaRow_toProtobuf ::
    "identificationServiceAreaRow \<Rightarrow> error + pb_IdentificationServiceArea" where
  "identificationServiceAreaRow_toProtobuf isar =
     (case TimestampProto (isar_startsAt isar) of
        Inl err \<Rightarrow> Inl err
      | Inr ts \<Rightarrow>
          (case TimestampProto (isar_endsAt isar) of
             Inl err \<Rightarrow> Inl err
           | Inr te \<Rightarrow>
               Inr \<lparr>pbi_Id = isar_id isar,
                    pbi_Owner = isar_owner isar,
                    pbi_FlightsUrl = isar_url isar,
                    pbi_Version = FormatInt (UnixNano (isar_updatedAt isar)) 10,
                    pbi_Extents =
                      Some \<lparr>pbv_SpatialVolume = None, pbv_TimeStart = Some ts,
                            pbv_TimeEnd = Some te\<rparr>\<rparr>))"

record subscriptionsRow =
  sr_id :: string
  sr_owner :: string
  sr_url :: string
  sr_typesFilter :: "string option"
  sr_notificationIndex :: "32 word"
  sr_lastUsedAt :: "time option"
  sr_beginsAt :: "time option"
  sr_expiresAt :: "time option"
  sr_updatedAt :: time

definition subscriptionsRow_toProtobuf :: "subscriptionsRow \<Rightarrow> error + pb_Subscription" where
  "subscriptionsRow_toProtobuf sr =
     (let result =
        \<lparr>pbs_Id = sr_id sr,
         pbs_Owner = sr_owner sr,
         pbs_Callbacks = Some (sr_url sr),
         pbs_NotificationIndex = sr_notificationIndex sr,
         pbs_Version = timestampToVersionString (sr_updatedAt sr),
         pbs_Begins = None,
         pbs_Expires = None\<rparr> in
      case (case sr_beginsAt sr of
              None \<Rightarrow> Inr result
            | Some b \<Rightarrow>
                (case TimestampProto b of
                   Inl err \<Rightarrow> Inl err
                 | Inr ts \<Rightarrow> Inr (result\<lparr>pbs_Begins := Some ts\<rparr>))) of
        Inl err \<Rightarrow> Inl err
      | Inr result1 \<Rightarrow>
          (case sr_expiresAt sr of
             None \<Rightarrow> Inr result1
           | Some e \<Rightarrow>
               (case TimestampProto e of
                  Inl err \<Rightarrow> Inl err
                | Inr ts \<Rightarrow> Inr (result1\<lparr>pbs_Expires := Some ts\<rparr>))))"

definition versionOK :: "subscriptionsRow \<Rightarrow> string \<Rightarrow> bool" where
  "versionOK sr version \<longleftrightarrow>
     version = [] \<or> version = timestampToVersionString (sr_updatedAt sr)"

text \<open>
  \<open>applyProtobuf\<close> ("from or apply") writes the set fields of a message into the row in
  place and returns an error; on an invalid timestamp it returns early, the fields written
  so far staying written.  The model returns the row and the error.
\<close>

definition applyProtobuf :: "subscriptionsRow \<Rightarrow> pb_Subscription \<Rightarrow> subscriptionsRow \<times> error option" where
  "applyProtobuf sr subscription =
     (let sr1 = (if pbs_Id subscription \<noteq> [] then sr\<lparr>sr_id := pbs_Id subscription\<rparr> else sr);
          sr2 = (if pbs_Owner subscription \<noteq> [] then sr1\<lparr>sr_owner := pbs_Owner subscription\<rparr> else sr1);
          sr3 = (if GetIdentificationServiceAreaUrl (pbs_Callbacks subscription) \<noteq> []
                 then sr2\<lparr>sr_url := GetIdentificationServiceAreaUrl (pbs_Callbacks subscription)\<rparr>
                 else sr2) in
      case (case pbs_Begins subscription of
              None \<Rightarrow> Inr sr3
            | Some ts \<Rightarrow>
                (case ptypes_Timestamp (Some ts) of
                   Inl err \<Rightarrow> Inl err
                 | Inr begins \<Rightarrow> Inr (sr3\<lparr>sr_beginsAt := Some begins\<rparr>))) of
        Inl err \<Rightarrow> (sr3, Some err)
      | Inr sr4 \<Rightarrow>
          (case pbs_Expires subscription of
             None \<Rightarrow> (sr4, None)
           | Some ts \<Rightarrow>
               (case ptypes_Timestamp (Some ts) of
                  Inl err \<Rightarrow> (sr4, Some err)
                | Inr expires \<Rightarrow> (sr4\<lparr>sr_expiresAt := Some expires\<rparr>, None))))"

section \<open>The database\<close>

text \<open>
  The four tables of \<open>Bootstrap\<close>.  The two index tables are kept by their primary key
  \<open>(cell_id, entity id)\<close>: no statement of the store reads their \<open>cell_level\<close> or
  \<open>updated_at\<close>.  Rows are kept in insertion order and a query returns them in that
  order.  The backend is taken to be healthy: a statement fails only where a constraint
  of the schema or the Go driver rejects it.  A transaction works on a copy of the
  database; commit makes the copy the database, rollback and abandonment leave the
  database as it was.  Ids are opaque strings.  Timestamps are kept as they are
  written; the rounding of the column type to microseconds is not modelled.
\<close>

record db =
  subscriptions :: "subscriptionsRow list"
  cells_subscriptions :: "(int64 \<times> string) list"
  identification_service_areas :: "identificationServiceAreaRow list"
  cells_identification_service_areas :: "(int64 \<times> string) list"

text \<open>
  How an operation left its transaction: never begun, begun and neither committed nor
  rolled back when the operation returned, committed, or rolled back.
\<close>

datatype txState = TxNone | TxOpen | TxCommitted | TxRolledBack

type_synonym 'a outcome = "(error + 'a) \<times> txState \<times> db"

subsection \<open>SQL conditions\<close>

datatype sqlbool = STrue | SFalse | SNull

fun sql_and :: "sqlbool \<Rightarrow> sqlbool \<Rightarrow> sqlbool" where
  "sql_and SFalse _ = SFalse"
| "sql_and _ SFalse = SFalse"
| "sql_and STrue STrue = STrue"
| "sql_and _ _ = SNull"

fun sql_or :: "sqlbool \<Rightarrow> sqlbool \<Rightarrow> sqlbool" where
  "sql_or STrue _ = STrue"
| "sql_or _ STrue = STrue"
| "sql_or SFalse SFalse = SFalse"
| "sql_or _ _ = SNull"

definition sql_bool :: "bool \<Rightarrow> sqlbool" where
  "sql_bool b = (if b then STrue else SFalse)"

definition sql_is_null :: "'a option \<Rightarrow> sqlbool" where
  "sql_is_null v = sql_bool (v = None)"

definition sql_le :: "time option \<Rightarrow> time option \<Rightarrow> sqlbool" where
  "sql_le a b = (case (a, b) of (Some x, Some y) \<Rightarrow> sql_bool (x \<le> y) | _ \<Rightarrow> SNull)"

text \<open>
  \<open>x = ANY($1)\<close> for an array bound from a Go slice of non-NULL values.  The slices the
  store binds are nil exactly when they are empty, and \<open>pq.Array\<close> binds a nil slice as
  NULL.
\<close>

definition sql_any :: "'a \<Rightarrow> 'a list \<Rightarrow> sqlbool" where
  "sql_any x xs = (if xs = [] then SNull else sql_bool (x \<in> set xs))"

definition leftJoin :: "'a list \<Rightarrow> 'b list \<Rightarrow> ('a \<Rightarrow> 'b \<Rightarrow> bool) \<Rightarrow> ('a \<times> 'b option) list" where
  "leftJoin as bs on =
     concat (map (\<lambda>a. case filter (on a) bs of
                         [] \<Rightarrow> [(a, None)]
                       | m # ms \<Rightarrow> map (\<lambda>b. (a, Some b)) (m # ms)) as)"

definition innerJoin :: "'a list \<Rightarrow> 'b list \<Rightarrow> ('a \<Rightarrow> 'b \<Rightarrow> bool) \<Rightarrow> ('a \<times> 'b) list" where
  "innerJoin as bs on = concat (map (\<lambda>a. map (\<lambda>b. (a, b)) (filter (on a) bs)) as)"

text \<open>UPSERT by primary key: replace the row with that key, or append.\<close>

fun upsertRow :: "('r \<Rightarrow> 'k) \<Rightarrow> 'r \<Rightarrow> 'r list \<Rightarrow> 'r list" where
  "upsertRow key r [] = [r]"
| "upsertRow key r (x # xs) = (if key x = key r then r # xs else x # upsertRow key r xs)"

text \<open>\<open>CHECK (begins_at IS NULL OR expires_at IS NULL OR begins_at < expires_at)\<close>\<close>

definition checkWindow :: "time option \<Rightarrow> time option \<Rightarrow> bool" where
  "checkWindow b e = (case (b, e) of (Some x, Some y) \<Rightarrow> x < y | _ \<Rightarrow> True)"

text \<open>
  \<open>SELECT DISTINCT subscription_id FROM cells_subscriptions WHERE cell_id = ANY($1)\<close>
\<close>

definition unique_subscription_ids :: "db \<Rightarrow> int64 list \<Rightarrow> string list" where
  "unique_subscription_ids d cells =
     remdups (map snd (filter (\<lambda>(c, i). sql_any c cells = STrue) (cells_subscriptions d)))"

text \<open>
  The statement \<open>UPSERT INTO cells_subscriptions VALUES ($1, $2, $3, ...)\<close>, once per cell.
\<close>

definition subscriptionCellQuery :: "db \<Rightarrow> int64 \<Rightarrow> string \<Rightarrow> db" where
  "subscriptionCellQuery d cell i =
     d\<lparr>cells_subscriptions := upsertRow id (cell, i) (cells_subscriptions d)\<rparr>"

section \<open>The store on rows and wire messages\<close>

text \<open>
  \<open>UPSERT INTO subscriptions VALUES ($1, ..., $8, transaction_timestamp()) RETURNING *\<close>
\<close>

definition updateQuery :: "db \<Rightarrow> time \<Rightarrow> subscriptionsRow \<Rightarrow> error + (subscriptionsRow \<times> db)" where
  "updateQuery d now sr =
     (let r = sr\<lparr>sr_updatedAt := now\<rparr> in
      if \<not> checkWindow (sr_beginsAt r) (sr_expiresAt r) then Inl ErrCheckViolation
      else Inr (r, d\<lparr>subscriptions := upsertRow sr_id r (subscriptions d)\<rparr>))"

text \<open>
  \<open>updateSubscription\<close>.  The error of \<open>applyProtobuf\<close> is dropped, as in the source, and
  an error of \<open>toProtobuf\<close> is returned with the transaction neither committed nor
  rolled back.
\<close>

definition updateSubscription ::
    "db \<Rightarrow> time \<Rightarrow> pb_Subscription \<Rightarrow> int64 list \<Rightarrow> pb_Subscription outcome" where
  "updateSubscription d now subscription cells =
     (case filter (\<lambda>r. sr_id r = pbs_Id subscription) (subscriptions d) of
        [] \<Rightarrow> (Inl ErrNoRows, TxRolledBack, d)
      | sr # _ \<Rightarrow>
          if \<not> versionOK sr (pbs_Version subscription)
          then (Inl (ErrMessage (''version mismatch for subscription '' @ pbs_Id subscription)),
                TxRolledBack, d)
          else
            (case updateQuery d now (fst (applyProtobuf sr subscription)) of
               Inl err \<Rightarrow> (Inl err, TxRolledBack, d)
             | Inr (sr1, d1) \<Rightarrow>
                 let d2 = foldl (\<lambda>dd cell. subscriptionCellQuery dd cell (sr_id sr1)) d1 cells in
                 (case subscriptionsRow_toProtobuf sr1 of
                    Inl err \<Rightarrow> (Inl err, TxOpen, d)
                  | Inr result \<Rightarrow> (Inr result, TxCommitted, d2))))"

fun mapM_sum :: "('a \<Rightarrow> error + 'b) \<Rightarrow> 'a list \<Rightarrow> error + 'b list" where
  "mapM_sum f [] = Inr []"
| "mapM_sum f (x # xs) =
     (case f x of
        Inl err \<Rightarrow> Inl err
      | Inr y \<Rightarrow> (case mapM_sum f xs of Inl err \<Rightarrow> Inl err | Inr ys \<Rightarrow> Inr (y # ys)))"

text \<open>
  \<open>SearchSubscriptions\<close> of the row-based store: the rows of \<open>subscriptions LEFT JOIN
  unique_subscription_ids ON id = subscription_id WHERE owner = $2\<close>, each converted with
  \<open>toProtobuf\<close>.
\<close>

definition subscriptionsInCellsQuery :: "db \<Rightarrow> int64 list \<Rightarrow> string \<Rightarrow> subscriptionsRow list" where
  "subscriptionsInCellsQuery d cells owner =
     map fst (filter (\<lambda>(r, u). sr_owner r = owner)
       (leftJoin (subscriptions d) (unique_subscription_ids d cells) (\<lambda>r u. sr_id r = u)))"

definition SearchSubscriptions_rows ::
    "db \<Rightarrow> int64 list \<Rightarrow> string \<Rightarrow> pb_Subscription list outcome" where
  "SearchSubscriptions_rows d cells owner =
     (if cells = [] then (Inl (ErrMessage ''missing cell IDs for query''), TxNone, d)
      else
        (case mapM_sum subscriptionsRow_toProtobuf (subscriptionsInCellsQuery d cells owner) of
           Inl err \<Rightarrow> (Inl err, TxRolledBack, d)
         | Inr result \<Rightarrow> (Inr result, TxCommitted, d)))"

subsection \<open>\<open>DeleteIdentificationServiceArea\<close>\<close>

text \<open>
  \<open>getAffectedCellsAndSubscriptions\<close>: the cells of the service area, left-joined with
  the distinct \<open>(cell_id, subscription_id)\<close> pairs of \<open>cells_subscriptions\<close>.
\<close>

definition getAffectedCellsAndSubscriptions :: "db \<Rightarrow> string \<Rightarrow> (int64 \<times> string option) list" where
  "getAffectedCellsAndSubscriptions d i =
     map (\<lambda>(ci, m). (fst ci, map_option snd m))
       (filter (\<lambda>(ci, m). snd ci = i)
         (leftJoin (cells_identification_service_areas d) (remdups (cells_subscriptions d))
            (\<lambda>ci cs. fst cs = fst ci)))"

text \<open>
  The scan loop reads \<open>subscription_id\<close> into a Go \<open>string\<close>; \<open>database/sql\<close> refuses to
  convert NULL to a string, so a cell of the area without any subscription ends the
  operation with an error.
\<close>

fun scanCellsAndSubscriptions ::
    "(int64 \<times> string option) list \<Rightarrow> error + (int64 list \<times> string list)" where
  "scanCellsAndSubscriptions [] = Inr ([], [])"
| "scanCellsAndSubscriptions ((cell, None) # rows) = Inl ErrScanNull"
| "scanCellsAndSubscriptions ((cell, Some subscription) # rows) =
     (case scanCellsAndSubscriptions rows of
        Inl err \<Rightarrow> Inl err
      | Inr (cells, subs) \<Rightarrow> Inr (cell # cells, subscription # subs))"

text \<open>
  \<open>DELETE FROM identification_service_areas WHERE id = $1 AND owner = $2 RETURNING *\<close>,
  with the cascade to the index table.
\<close>

definition deleteIdentificationServiceAreaQuery ::
    "db \<Rightarrow> string \<Rightarrow> string \<Rightarrow> error + (identificationServiceAreaRow \<times> db)" where
  "deleteIdentificationServiceAreaQuery d i owner =
     (case filter (\<lambda>r. isar_id r = i \<and> isar_owner r = owner) (identification_service_areas d) of
        [] \<Rightarrow> Inl ErrNoRows
      | isar # _ \<Rightarrow>
          Inr (isar,
               d\<lparr>identification_service_areas :=
                    filter (\<lambda>r. \<not> (isar_id r = i \<and> isar_owner r = owner))
                      (identification_service_areas d),
                 cells_identification_service_areas :=
                    filter (\<lambda>ci. snd ci \<noteq> i) (cells_identification_service_areas d)\<rparr>))"

text \<open>
  The WHERE clause of \<open>getSubscriptionDetailsForAffectedCells\<close>, as SQL parses it
  (\<open>AND\<close> binds tighter than \<open>OR\<close>):
  \<open>(id = ANY($1) AND owner != $2 AND begins_at IS NULL)
    OR (now >= begins_at AND expires_at IS NULL)
    OR now <= expires_at\<close>.
\<close>

definition getSubscriptionDetailsForAffectedCells_where ::
    "time \<Rightarrow> string list \<Rightarrow> string \<Rightarrow> subscriptionsRow \<Rightarrow> sqlbool" where
  "getSubscriptionDetailsForAffectedCells_where now ids owner r =
     sql_or
       (sql_or
          (sql_and
             (sql_and (sql_any (sr_id r) ids) (sql_bool (sr_owner r \<noteq> owner)))
             (sql_is_null (sr_beginsAt r)))
          (sql_and (sql_le (sr_beginsAt r) (Some now)) (sql_is_null (sr_expiresAt r))))
       (sql_le (Some now) (sr_expiresAt r))"

definition getSubscriptionDetailsForAffectedCells ::
    "db \<Rightarrow> time \<Rightarrow> string list \<Rightarrow> string \<Rightarrow> subscriberRow list" where
  "getSubscriptionDetailsForAffectedCells d now ids owner =
     map (\<lambda>r. \<lparr>sbr_id = sr_id r, sbr_url = sr_url r,
               sbr_notificationIndex = sr_notificationIndex r\<rparr>)
       (filter (\<lambda>r. getSubscriptionDetailsForAffectedCells_where now ids owner r = STrue)
          (subscriptions d))"

text \<open>
  \<open>DeleteIdentificationServiceArea\<close>.  When the DELETE returns no row the source rolls
  back, drops the error and goes on; the next statement then fails on the finished
  transaction, and that error is returned.
\<close>

definition DeleteIdentificationServiceArea ::
    "db \<Rightarrow> time \<Rightarrow> string \<Rightarrow> string
      \<Rightarrow> (pb_IdentificationServiceArea \<times> pb_SubscriberToNotify list) outcome" where
  "DeleteIdentificationServiceArea d now i owner =
     (case scanCellsAndSubscriptions (getAffectedCellsAndSubscriptions d i) of
        Inl err \<Rightarrow> (Inl err, TxRolledBack, d)
      | Inr (cells, subs) \<Rightarrow>
          (case deleteIdentificationServiceAreaQuery d i owner of
             Inl err \<Rightarrow> (Inl ErrTxDone, TxRolledBack, d)
           | Inr (isar, d1) \<Rightarrow>
               let subscribers = getSubscriptionDetailsForAffectedCells d1 now subs owner in
               (case identificationServiceAreaRow_toProtobuf isar of
                  Inl err \<Rightarrow> (Inl err, TxRolledBack, d)
                | Inr isa \<Rightarrow>
                    (case mapM_sum subscriberRow_toProtobuf subscribers of
                       Inl err \<Rightarrow> (Inl err, TxRolledBack, d)
                     | Inr subscribersToNotify \<Rightarrow>
                         (Inr (isa, subscribersToNotify), TxCommitted, d1)))))"

section \<open>The store on models\<close>

text \<open>
  \<open>models.Subscription\<close>, with the fields the store scans and writes.  A nil pointer or
  slice is \<open>None\<close>.  The statements of this store name the window columns \<open>starts_at\<close>
  and \<open>ends_at\<close>; they are the \<open>begins_at\<close> and \<open>expires_at\<close> columns of the table.
\<close>

record Subscription =
  s_ID :: string
  s_Url :: string
  s_NotificationIndex :: "32 word"
  s_Owner :: string
  s_Cells :: "int64 list option"
  s_StartTime :: "time option"
  s_EndTime :: "time option"
  s_UpdatedAt :: "time option"

definition cellUnion :: "int64 list option \<Rightarrow> int64 list" where
  "cellUnion cells = (case cells of None \<Rightarrow> [] | Some cs \<Rightarrow> cs)"

text \<open>
  Modelled from the spec: \<open>Subscription.Version\<close> and \<open>Subscription.Apply\<close>, which the
  store calls and whose source is not part of the repository snapshot.  The version is
  "deterministic from \<open>updated_at\<close> via the base-32 encoding; empty when \<open>updated_at\<close> is
  absent"; \<open>Apply\<close> "returns a copy with every non-empty field of the overlay overwriting
  the receiver, except \<open>id\<close> and \<open>owner\<close>".
\<close>

definition Subscription_Version :: "Subscription \<Rightarrow> string" where
  "Subscription_Version s =
     (case s_UpdatedAt s of None \<Rightarrow> [] | Some t \<Rightarrow> timestampToVersionString t)"

definition Subscription_Apply :: "Subscription \<Rightarrow> Subscription \<Rightarrow> Subscription" where
  "Subscription_Apply s s2 =
     (let n1 = (if s_Url s2 \<noteq> [] then s\<lparr>s_Url := s_Url s2\<rparr> else s);
          n2 = (if s_NotificationIndex s2 \<noteq> 0
                then n1\<lparr>s_NotificationIndex := s_NotificationIndex s2\<rparr> else n1);
          n3 = (if s_Cells s2 \<noteq> None then n2\<lparr>s_Cells := s_Cells s2\<rparr> else n2);
          n4 = (if s_StartTime s2 \<noteq> None then n3\<lparr>s_StartTime := s_StartTime s2\<rparr> else n3);
          n5 = (if s_EndTime s2 \<noteq> None then n4\<lparr>s_EndTime := s_EndTime s2\<rparr> else n4);
          n6 = (if s_UpdatedAt s2 \<noteq> None then n5\<lparr>s_UpdatedAt := s_UpdatedAt s2\<rparr> else n5)
      in n6)"

text \<open>One row of a result set with the columns \<open>subscriptionFields\<close>, scanned.\<close>

definition scanSubscription :: "subscriptionsRow \<Rightarrow> Subscription" where
  "scanSubscription r =
     \<lparr>s_ID = sr_id r,
      s_Url = sr_url r,
      s_NotificationIndex = sr_notificationIndex r,
      s_Owner = sr_owner r,
      s_Cells = None,
      s_StartTime = sr_beginsAt r,
      s_EndTime = sr_expiresAt r,
      s_UpdatedAt = Some (sr_updatedAt r)\<rparr>"

definition fetchSubscriptions :: "subscriptionsRow list \<Rightarrow> Subscription list" where
  "fetchSubscriptions rows = map scanSubscription rows"

definition fetchSubscriptionsByCellsWithoutOwner ::
    "db \<Rightarrow> int64 list \<Rightarrow> string \<Rightarrow> Subscription list" where
  "fetchSubscriptionsByCellsWithoutOwner d cells owner =
     fetchSubscriptions
       (map fst (filter (\<lambda>(r, u). sr_owner r \<noteq> owner)
          (leftJoin (subscriptions d) (unique_subscription_ids d cells) (\<lambda>r u. sr_id r = u))))"

definition fetchSubscription :: "subscriptionsRow list \<Rightarrow> error + Subscription" where
  "fetchSubscription rows =
     (let subs = fetchSubscriptions rows in
      if 1 < length subs then Inl (ErrTooManyRows (length subs))
      else (case subs of [] \<Rightarrow> Inl ErrNoRows | s # _ \<Rightarrow> Inr s))"

definition fetchSubscriptionByID :: "db \<Rightarrow> string \<Rightarrow> error + Subscription" where
  "fetchSubscriptionByID d i =
     fetchSubscription (filter (\<lambda>r. sr_id r = i) (subscriptions d))"

definition fetchSubscriptionByIDAndOwner :: "db \<Rightarrow> string \<Rightarrow> string \<Rightarrow> error + Subscription" where
  "fetchSubscriptionByIDAndOwner d i owner =
     fetchSubscription (filter (\<lambda>r. sr_id r = i \<and> sr_owner r = owner) (subscriptions d))"

text \<open>
  \<open>UPSERT INTO subscriptions (id, owner, url, notification_index, starts_at, ends_at,
  updated_at) VALUES ($1, ..., $6, transaction_timestamp()) RETURNING ...\<close>: the named
  columns are written; a new row has NULL in the others.
\<close>

definition upsertQuery_row :: "db \<Rightarrow> time \<Rightarrow> Subscription \<Rightarrow> subscriptionsRow" where
  "upsertQuery_row d now s =
     (let old = (case filter (\<lambda>r. sr_id r = s_ID s) (subscriptions d) of
                   [] \<Rightarrow> (None, None)
                 | r # _ \<Rightarrow> (sr_typesFilter r, sr_lastUsedAt r))
      in \<lparr>sr_id = s_ID s,
          sr_owner = s_Owner s,
          sr_url = s_Url s,
          sr_typesFilter = fst old,
          sr_notificationIndex = s_NotificationIndex s,
          sr_lastUsedAt = snd old,
          sr_beginsAt = s_StartTime s,
          sr_expiresAt = s_EndTime s,
          sr_updatedAt = now\<rparr>)"

definition upsertQuery :: "db \<Rightarrow> time \<Rightarrow> Subscription \<Rightarrow> error + (subscriptionsRow list \<times> db)" where
  "upsertQuery d now s =
     (let r = upsertQuery_row d now s in
      if \<not> checkWindow (sr_beginsAt r) (sr_expiresAt r) then Inl ErrCheckViolation
      else Inr ([r], d\<lparr>subscriptions := upsertRow sr_id r (subscriptions d)\<rparr>))"

text \<open>
  \<open>DELETE FROM cells_subscriptions WHERE cell_id != ALL($1) AND subscription_id = $2\<close>
\<close>

definition deleteLeftOverCellsForSubscriptionQuery :: "db \<Rightarrow> int64 list \<Rightarrow> string \<Rightarrow> db" where
  "deleteLeftOverCellsForSubscriptionQuery d cids i =
     d\<lparr>cells_subscriptions :=
         filter (\<lambda>ci. \<not> (fst ci \<notin> set cids \<and> snd ci = i)) (cells_subscriptions d)\<rparr>"

text \<open>
  \<open>pushSubscription\<close> runs in the caller's transaction: it returns the subscription and
  the transaction's copy of the database.
\<close>

definition pushSubscription :: "db \<Rightarrow> time \<Rightarrow> Subscription \<Rightarrow> error + (Subscription \<times> db)" where
  "pushSubscription d now s =
     (let cids = cellUnion (s_Cells s);
          cells = s_Cells s in
      case upsertQuery d now s of
        Inl err \<Rightarrow> Inl err
      | Inr (rows, d1) \<Rightarrow>
          (case fetchSubscription rows of
             Inl err \<Rightarrow> Inl err
           | Inr s1 \<Rightarrow>
               let s2 = s1\<lparr>s_Cells := cells\<rparr>;
                   d2 = foldl (\<lambda>dd cid. subscriptionCellQuery dd cid (s_ID s2)) d1 cids;
                   d3 = deleteLeftOverCellsForSubscriptionQuery d2 cids (s_ID s2)
               in Inr (s2, d3)))"

definition GetSubscription :: "db \<Rightarrow> string \<Rightarrow> error + Subscription" where
  "GetSubscription d i = fetchSubscriptionByID d i"

text \<open>
  \<open>InsertSubscription\<close> and \<open>UpdateSubscription\<close>: an error of \<open>pushSubscription\<close> is
  returned as it is, the transaction neither committed nor rolled back.
\<close>

definition InsertSubscription :: "db \<Rightarrow> time \<Rightarrow> Subscription \<Rightarrow> Subscription outcome" where
  "InsertSubscription d now s =
     (case fetchSubscriptionByID d (s_ID s) of
        Inr _ \<Rightarrow> (Inl (AlreadyExists (s_ID s)), TxRolledBack, d)
      | Inl err \<Rightarrow>
          if err \<noteq> ErrNoRows then (Inl err, TxRolledBack, d)
          else
            (case pushSubscription d now s of
               Inl err \<Rightarrow> (Inl err, TxOpen, d)
             | Inr (s1, d1) \<Rightarrow> (Inr s1, TxCommitted, d1)))"

definition UpdateSubscription :: "db \<Rightarrow> time \<Rightarrow> Subscription \<Rightarrow> Subscription outcome" where
  "UpdateSubscription d now s =
     (case fetchSubscriptionByIDAndOwner d (s_ID s) (s_Owner s) of
        Inl err \<Rightarrow>
          if err = ErrNoRows then (Inl NotFound, TxRolledBack, d)
          else (Inl err, TxRolledBack, d)
      | Inr old \<Rightarrow>
          if Subscription_Version s \<noteq> Subscription_Version old
          then (Inl VersionMismatch, TxRolledBack, d)
          else
            (case pushSubscription d now (Subscription_Apply old s) of
               Inl err \<Rightarrow> (Inl err, TxOpen, d)
             | Inr (s1, d1) \<Rightarrow> (Inr s1, TxCommitted, d1)))"

text \<open>
  \<open>SearchSubscriptions\<close>: the same LEFT JOIN as in the row-based store, scanned into
  models.
\<close>

definition SearchSubscriptions :: "db \<Rightarrow> int64 list \<Rightarrow> string \<Rightarrow> Subscription list outcome" where
  "SearchSubscriptions d cells owner =
     (if cells = [] then (Inl (BadRequest ''no location provided''), TxNone, d)
      else (Inr (fetchSubscriptions (subscriptionsInCellsQuery d cells owner)), TxCommitted, d))"

text \<open>
  The query of the specification, for comparison: an inner JOIN of \<open>subscriptions\<close> with
  the distinct subscription ids of the queried cells, restricted to the owner.
\<close>

definition SearchSubscriptions_spec :: "db \<Rightarrow> int64 list \<Rightarrow> string \<Rightarrow> subscriptionsRow list" where
  "SearchSubscriptions_spec d cells owner =
     map fst (filter (\<lambda>(r, u). sr_owner r = owner)
       (innerJoin (subscriptions d) (unique_subscription_ids d cells) (\<lambda>r u. sr_id r = u)))"

section \<open>Entity model and geo coverer\<close>

text \<open>
  \<open>models.IdentificationServiceArea\<close> and its \<open>Apply\<close>.  The altitudes are carried
  opaquely, as the bits of the \<open>float32\<close>.
\<close>

record IdentificationServiceArea =
  i_ID :: string
  i_Url :: string
  i_Owner :: string
  i_Cells :: "int64 list option"
  i_StartTime :: "time option"
  i_EndTime :: "time option"
  i_UpdatedAt :: "time option"
  i_AltitudeHi :: "32 word option"
  i_AltitudeLo :: "32 word option"

definition Apply :: "IdentificationServiceArea \<Rightarrow> IdentificationServiceArea \<Rightarrow> IdentificationServiceArea" where
  "Apply s i2 =
     (let n1 = (if i_Url i2 \<noteq> [] then s\<lparr>i_Url := i_Url i2\<rparr> else s);
          n2 = (if i_Cells i2 \<noteq> None then n1\<lparr>i_Cells := i_Cells i2\<rparr> else n1);
          n3 = (if i_StartTime i2 \<noteq> None then n2\<lparr>i_StartTime := i_StartTime i2\<rparr> else n2);
          n4 = (if i_EndTime i2 \<noteq> None then n3\<lparr>i_EndTime := i_EndTime i2\<rparr> else n3);
          n5 = (if i_UpdatedAt i2 \<noteq> None then n4\<lparr>i_UpdatedAt := i_UpdatedAt i2\<rparr> else n4);
          n6 = (if i_AltitudeHi i2 \<noteq> None then n5\<lparr>i_AltitudeHi := i_AltitudeHi i2\<rparr> else n5);
          n7 = (if i_AltitudeLo i2 \<noteq> None then n6\<lparr>i_AltitudeLo := i_AltitudeLo i2\<rparr> else n6)
      in n7)"

text \<open>
  The geo coverer.  Areas are \<open>float64\<close> in the source and real numbers here; the
  loop's area and the region coverer belong to the S2 library and are parameters.
\<close>

definition maxAllowedSqMi :: real where
  "maxAllowedSqMi = 1000"

definition maxLoopArea :: real where
  "maxLoopArea =
     (let sqMiEarth = 197000000;
          scalingFactor = sqMiEarth / 4 * pi
      in maxAllowedSqMi / scalingFactor)"

definition errBadCoordSet :: error where
  "errBadCoordSet = BadRequest ''coordinates did not create a well formed area''"

definition errAreaTooLarge :: error where
  "errAreaTooLarge = BadRequest ''area is too large''"

definition Covering :: "('l \<Rightarrow> real) \<Rightarrow> ('l \<Rightarrow> int64 list) \<Rightarrow> 'l \<Rightarrow> error + int64 list" where
  "Covering Area RegionCoverer loop =
     (let loopArea = Area loop in
      if loopArea \<le> 0 then Inl errBadCoordSet
      else if loopArea > maxLoopArea then Inl errAreaTooLarge
      else Inr (RegionCoverer loop))"

text \<open>
  The bound of the specification, for comparison: 1000 square miles on the unit sphere,
  \<open>maxAllowedSqMi / (sqMiEarth / (4\<pi>))\<close>.
\<close>

definition maxLoopArea_spec :: real where
  "maxLoopArea_spec = maxAllowedSqMi / (197000000 / (4 * pi))"

section \<open>The service-area repository\<close>














section \<open>Example states\<close>

text \<open>
  The scenarios of the specification as database states: a subscription \<open>S_A\<close> of owner
  \<open>A\<close> with a time window, a subscription \<open>S_B\<close> of owner \<open>B\<close> without one, and a
  service area \<open>I_A\<close> of owner \<open>A\<close>, all in cell 42.
\<close>

definition row_S_A :: subscriptionsRow where
  "row_S_A =
     \<lparr>sr_id = ''S_A'', sr_owner = ''A'', sr_url = ''https://a/isas'', sr_typesFilter = None,
      sr_notificationIndex = 0, sr_lastUsedAt = None, sr_beginsAt = Some 500,
      sr_expiresAt = Some 2000, sr_updatedAt = 100\<rparr>"

definition row_S_B :: subscriptionsRow where
  "row_S_B =
     \<lparr>sr_id = ''S_B'', sr_owner = ''B'', sr_url = ''https://b/isas'', sr_typesFilter = None,
      sr_notificationIndex = 0, sr_lastUsedAt = None, sr_beginsAt = None,
      sr_expiresAt = None, sr_updatedAt = 100\<rparr>"

definition row_I_A :: identificationServiceAreaRow where
  "row_I_A =
     \<lparr>isar_id = ''I_A'', isar_owner = ''A'', isar_url = ''https://a/flights'',
      isar_startsAt = 0, isar_endsAt = 60000000000, isar_updatedAt = 200\<rparr>"

definition db_S4 :: db where
  "db_S4 =
     \<lparr>subscriptions = [row_S_B],
      cells_subscriptions = [(42, ''S_B'')],
      identification_service_areas = [row_I_A],
      cells_identification_service_areas = [(42, ''I_A'')]\<rparr>"

definition db_S5 :: db where
  "db_S5 =
     \<lparr>subscriptions = [row_S_A],
      cells_subscriptions = [(42, ''S_A'')],
      identification_service_areas = [row_I_A],
      cells_identification_service_areas = [(42, ''I_A'')]\<rparr>"

definition db_S6 :: db where
  "db_S6 =
     \<lparr>subscriptions = [row_S_B],
      cells_subscriptions = [(42, ''S_B''), (84, ''S_B'')],
      identification_service_areas = [],
      cells_identification_service_areas = []\<rparr>"

text \<open>
  The state of scenario S4 before the service area is inserted, and the state in which
  \<open>S_B\<close> has been notified of the insert at time 200.
\<close>

definition db_S4_before :: db where
  "db_S4_before =
     \<lparr>subscriptions = [row_S_B],
      cells_subscriptions = [(42, ''S_B'')],
      identification_service_areas = [],
      cells_identification_service_areas = []\<rparr>"

definition db_S4_notified :: db where
  "db_S4_notified =
     \<lparr>subscriptions = [row_S_B\<lparr>sr_notificationIndex := 1, sr_updatedAt := 200\<rparr>],
      cells_subscriptions = [(42, ''S_B'')],
      identification_service_areas = [row_I_A],
      cells_identification_service_areas = [(42, ''I_A'')]\<rparr>"

text \<open>An update of \<open>S_B\<close> carrying its current version, and one with an inverted window.\<close>

definition update_S_B :: pb_Subscription where
  "update_S_B =
     \<lparr>pbs_Id = ''S_B'', pbs_Owner = ''B'', pbs_Callbacks = None, pbs_NotificationIndex = 0,
      pbs_Version = ''34'', pbs_Begins = None, pbs_Expires = None\<rparr>"

definition inverted_S_C :: Subscription where
  "inverted_S_C =
     \<lparr>s_ID = ''S_C'', s_Url = ''https://c/isas'', s_NotificationIndex = 0, s_Owner = ''C'',
      s_Cells = Some [42], s_StartTime = Some 2000, s_EndTime = Some 500, s_UpdatedAt = None\<rparr>"

text \<open>
  The same update on the model-based store, the subscription it returns and the database
  it commits; and a message that names \<open>A\<close> as the owner of \<open>S_B\<close>.
\<close>

definition model_update_S_B :: Subscription where
  "model_update_S_B =
     \<lparr>s_ID = ''S_B'', s_Url = [], s_NotificationIndex = 0, s_Owner = ''B'',
      s_Cells = Some [84, 126], s_StartTime = None, s_EndTime = None, s_UpdatedAt = Some 100\<rparr>"

definition updated_S_B :: Subscription where
  "updated_S_B =
     \<lparr>s_ID = ''S_B'', s_Url = ''https://b/isas'', s_NotificationIndex = 0, s_Owner = ''B'',
      s_Cells = Some [84, 126], s_StartTime = None, s_EndTime = None, s_UpdatedAt = Some 1000\<rparr>"

definition db_S6_updated :: db where
  "db_S6_updated =
     \<lparr>subscriptions = [row_S_B\<lparr>sr_updatedAt := 1000\<rparr>],
      cells_subscriptions = [(84, ''S_B''), (126, ''S_B'')],
      identification_service_areas = [],
      cells_identification_service_areas = []\<rparr>"

text \<open>The state after an update of \<open>I_A\<close> at time 300 has notified \<open>S_B\<close> again.\<close>

definition db_S4_renotified :: db where
  "db_S4_renotified =
     \<lparr>subscriptions = [row_S_B\<lparr>sr_notificationIndex := 2, sr_updatedAt := 300\<rparr>],
      cells_subscriptions = [(42, ''S_B'')],
      identification_service_areas = [row_I_A\<lparr>isar_updatedAt := 300\<rparr>],
      cells_identification_service_areas = [(42, ''I_A'')]\<rparr>"

definition takeover_S_B :: pb_Subscription where
  "takeover_S_B =
     \<lparr>pbs_Id = ''S_B'', pbs_Owner = ''A'', pbs_Callbacks = None, pbs_NotificationIndex = 0,
      pbs_Version = ''34'', pbs_Begins = None, pbs_Expires = None\<rparr>"

definition isa_I_A :: IdentificationServiceArea where
  "isa_I_A =
     \<lparr>i_ID = ''I_A'', i_Url = ''https://a/flights'', i_Owner = ''A'', i_Cells = Some [42],
      i_StartTime = Some 0, i_EndTime = Some 60000000000, i_UpdatedAt = Some 200,
      i_AltitudeHi = None, i_AltitudeLo = None\<rparr>"

section \<open>Properties\<close>

subsection \<open>Version strings\<close>

lemma upt32: "[0..<32] = [0,1,2,3,4,5,6,7,8,9,10,11,12,13,14,15,16,17,18,19,20,21,22,23,24,25,26,27,28,29,30,31]"
  by (simp add: upt_rec)

lemma digitVal_digits_all: "list_all (\<lambda>d. digitVal (digits ! d) = Some d) [0..<32]"
  unfolding upt32 by (simp add: digits_def digitVal_def lower_def)

lemma digitVal_digits: "d < 32 \<Longrightarrow> digitVal (digits ! d) = Some d"
  using digitVal_digits_all unfolding list_all_iff by simp

lemma cutoff_32: "cutoff 32 = 576460752303423488"
  by (simp add: cutoff_def maxUint64_def)

lemma maxUint64_top: "\<not> maxUint64 < (n :: uint64)"
  by (simp add: maxUint64_def not_less)

lemma parseLoop_step:
  assumes "d < 32" and "\<not> cutoff 32 \<le> n" and "\<not> n * 32 + of_nat d < n * 32"
  shows "parseLoop 32 (digits ! d # cs) n = parseLoop 32 cs (n * 32 + of_nat d)"
  using assms by (simp add: digitVal_digits maxUint64_top)

lemma parseLoop_digit:
  fixes u :: uint64
  shows "parseLoop 32 (digits ! unat (u mod 32) # cs) (u div 32) = parseLoop 32 cs u"
proof -
  have d: "unat (u mod 32) < 32"
    by (simp add: unat_mod)
  have c: "\<not> cutoff 32 \<le> u div 32"
  proof -
    have "unat u < 2 ^ 64" using unsigned_less [of u] by simp
    then have "unat u div 32 < 576460752303423488" by simp
    then show ?thesis by (simp add: cutoff_32 word_le_nat_alt unat_div)
  qed
  have e: "u div 32 * 32 + of_nat (unat (u mod 32)) = u"
    by (simp add: word_mod_div_equality)
  have f: "\<not> u < u div 32 * 32"
    using word_div_mult_le [of u 32] by (simp add: not_less)
  show ?thesis
    using parseLoop_step [OF d c, of cs] f unfolding e by simp
qed

lemma parseLoop_formatBits:
  "parseLoop 32 (formatBits 32 u a) 0 = parseLoop 32 a u"
proof (induction "32 :: uint64" u a rule: formatBits.induct)
  case (1 u a)
  show ?case
  proof (cases "32 \<le> u")
    case True
    then have "formatBits 32 u a = formatBits 32 (u div 32) (digits ! unat (u mod 32) # a)"
      by (subst formatBits.simps) simp
    also have "parseLoop 32 \<dots> 0 = parseLoop 32 (digits ! unat (u mod 32) # a) (u div 32)"
      using "1.hyps" True by simp
    also have "\<dots> = parseLoop 32 a u"
      by (rule parseLoop_digit)
    finally show ?thesis .
  next
    case False
    then have s: "u div 32 = 0" "u mod 32 = u"
      by (simp_all add: word_le_nat_alt word_eq_iff_unsigned [where ?'a = nat] unat_div unat_mod)
    have "formatBits 32 u a = digits ! unat u # a"
      using False by (subst formatBits.simps) simp
    moreover have "parseLoop 32 (digits ! unat u # a) 0 = parseLoop 32 a u"
      using parseLoop_digit [of u a] unfolding s .
    ultimately show ?thesis by (simp only:)
  qed
qed

lemma formatBits_nonempty: "formatBits b u a \<noteq> []"
  by (induction b u a rule: formatBits.induct) (subst formatBits.simps, simp)

lemma ParseUint_FormatUint: "ParseUint (FormatUint u 32) 32 = Inr u"
  by (simp add: ParseUint_def FormatUint_def formatBits_nonempty parseLoop_formatBits)

lemma decode_encode:
  "versionStringToTimestamp (timestampToVersionString t) = Inr (Unix 0 (UnixNano t))"
  by (simp add: versionStringToTimestamp_def timestampToVersionString_def versionBase_def
      ParseUint_FormatUint)

lemma Unix_0: "Unix 0 n = sint n"
  by (simp add: Unix_def)

lemma UnixNano_Unix: "UnixNano (Unix 0 n) = n"
  by (simp add: Unix_0 UnixNano_def)

lemma Unix_UnixNano: "representable t \<Longrightarrow> Unix 0 (UnixNano t) = t"
  unfolding Unix_0 UnixNano_def representable_def
  by (simp add: sint_sbintrunc' signed_take_bit_int_eq_self)

lemma formatBits_numeral_simps:
  "formatBits b u a =
     (if 2 \<le> unat b \<and> unat b \<le> unat u
      then formatBits b (u div b) (digits ! (unat u mod unat b) # a)
      else digits ! unat u # a)"
  by (subst formatBits.simps) (simp add: word_le_nat_alt unat_mod)

text \<open>
  C10.  Decoding an encoded version string succeeds and gives a time with the same
  \<open>UnixNano\<close>; when the nanosecond epoch of \<open>t\<close> is representable in \<open>int64\<close> the
  result is \<open>t\<close> itself; and encoding the decoded time gives the version string back, so
  the two conversions are inverse to each other between representable times and the
  strings the encoder produces.
\<close>

theorem version_roundtrip:
  "versionStringToTimestamp (timestampToVersionString t) = Inr (Unix 0 (UnixNano t))
   \<and> UnixNano (Unix 0 (UnixNano t)) = UnixNano t
   \<and> (representable t \<longrightarrow> versionStringToTimestamp (timestampToVersionString t) = Inr t)
   \<and> timestampToVersionString (Unix 0 (UnixNano t)) = timestampToVersionString t"
proof (intro conjI impI)
  show "versionStringToTimestamp (timestampToVersionString t) = Inr (Unix 0 (UnixNano t))"
    by (rule decode_encode)
  show "UnixNano (Unix 0 (UnixNano t)) = UnixNano t"
    by (rule UnixNano_Unix)
  show "versionStringToTimestamp (timestampToVersionString t) = Inr t" if "representable t"
    using that by (simp add: decode_encode Unix_UnixNano)
  show "timestampToVersionString (Unix 0 (UnixNano t)) = timestampToVersionString t"
    by (simp add: timestampToVersionString_def UnixNano_Unix)
qed

theorem version_roundtrip_witness:
  "representable 1572000000000000000
   \<and> versionStringToTimestamp (timestampToVersionString 1572000000000000000)
       = Inr 1572000000000000000"
  using version_roundtrip [of 1572000000000000000]
  by (simp add: representable_def Unix_def UnixNano_def)

text \<open>
  The version of a subscription row on the wire is the base-32 encoding of the unsigned
  nanosecond epoch of \<open>updated_at\<close>, whatever the other columns hold.
\<close>

lemma subscriptionsRow_version:
  "subscriptionsRow_toProtobuf sr = Inr pb \<Longrightarrow>
     pbs_Version pb = FormatUint (UnixNano (sr_updatedAt sr)) 32"
  by (auto simp: subscriptionsRow_toProtobuf_def Let_def timestampToVersionString_def
      versionBase_def split: option.splits sum.splits)

text \<open>
  C6.  The version of a service-area row is not the base-32 encoding:
  \<open>identificationServiceAreaRow.toProtobuf\<close> formats the signed nanosecond epoch in base 10.  A row updated 32 ns after the
  epoch goes out with version \<open>32\<close>, where the base-32 encoding is \<open>10\<close>.
\<close>

theorem isa_row_version_is_decimal:
  "map_sum id pbi_Version
     (identificationServiceAreaRow_toProtobuf
        \<lparr>isar_id = ''I1'', isar_owner = ''A'', isar_url = ''https://a/flights'',
         isar_startsAt = 0, isar_endsAt = 60000000000, isar_updatedAt = 32\<rparr>) = Inr ''32''
   \<and> timestampToVersionString 32 = ''10''"
  by (simp add: identificationServiceAreaRow_toProtobuf_def TimestampProto_def
      validateTimestamp_def minValidSeconds_def maxValidSeconds_def FormatInt_def
      timestampToVersionString_def FormatUint_def versionBase_def UnixNano_def
      formatBits_numeral_simps digits_def)

subsection \<open>Evaluating the store on the example states\<close>

lemmas example_defs = row_S_A_def row_S_B_def row_I_A_def db_S4_def db_S5_def db_S6_def
  update_S_B_def inverted_S_C_def model_update_S_B_def updated_S_B_def db_S6_updated_def
  takeover_S_B_def isa_I_A_def db_S4_before_def db_S4_notified_def db_S4_renotified_def

lemma v100: "timestampToVersionString 100 = ''34''"
  by (simp add: timestampToVersionString_def FormatUint_def versionBase_def UnixNano_def
      formatBits_numeral_simps digits_def)

text \<open>
  C7.  \<open>SearchSubscriptions\<close> joins with LEFT JOIN, which keeps every subscription row:
  a search in cell 210 by owner \<open>B\<close> returns \<open>S_B\<close>, whose only cell is 42, in both
  versions of the store.  The inner join of the specification returns nothing there.
\<close>

theorem search_returns_all_of_owner:
  "SearchSubscriptions db_S4 [210] ''B'' = (Inr [scanSubscription row_S_B], TxCommitted, db_S4)
   \<and> map_sum id (map pbs_Id) (fst (SearchSubscriptions_rows db_S4 [210] ''B'')) = Inr [''S_B'']
   \<and> SearchSubscriptions_spec db_S4 [210] ''B'' = []"
  by (simp add: example_defs Let_def SearchSubscriptions_def SearchSubscriptions_rows_def
      SearchSubscriptions_spec_def subscriptionsInCellsQuery_def unique_subscription_ids_def
      leftJoin_def innerJoin_def sql_any_def sql_bool_def fetchSubscriptions_def
      subscriptionsRow_toProtobuf_def)

text \<open>
  C3.  \<open>updateSubscription\<close> upserts the new cells and deletes none (its comment says
  the deletion is still to do): updating \<open>S_B\<close> from cells 42, 84 to cells 84, 126 commits
  with the row for cell 42 still in \<open>cells_subscriptions\<close>.
\<close>

theorem update_leaves_old_cells:
  "updateSubscription db_S6 1000 update_S_B [84, 126] =
     (Inr \<lparr>pbs_Id = ''S_B'', pbs_Owner = ''B'', pbs_Callbacks = Some ''https://b/isas'',
           pbs_NotificationIndex = 0, pbs_Version = timestampToVersionString 1000,
           pbs_Begins = None, pbs_Expires = None\<rparr>,
      TxCommitted,
      db_S6\<lparr>subscriptions := [row_S_B\<lparr>sr_updatedAt := 1000\<rparr>],
            cells_subscriptions := [(42, ''S_B''), (84, ''S_B''), (126, ''S_B'')]\<rparr>)"
  by (simp add: example_defs Let_def updateSubscription_def versionOK_def v100 applyProtobuf_def
      GetIdentificationServiceAreaUrl_def updateQuery_def checkWindow_def
      subscriptionCellQuery_def subscriptionsRow_toProtobuf_def)

text \<open>
  C4.  \<open>InsertSubscription\<close> returns an error of \<open>pushSubscription\<close> without rolling
  back: a subscription whose window is inverted is rejected by the CHECK constraint, and
  the operation returns that error with its transaction still open.
\<close>

theorem insert_error_without_rollback:
  "InsertSubscription db_S6 1000 inverted_S_C = (Inl ErrCheckViolation, TxOpen, db_S6)"
  by (simp add: example_defs Let_def InsertSubscription_def fetchSubscriptionByID_def
      fetchSubscription_def fetchSubscriptions_def pushSubscription_def upsertQuery_def
      upsertQuery_row_def checkWindow_def)

text \<open>
  C2.  The WHERE clause of \<open>getSubscriptionDetailsForAffectedCells\<close> has no parentheses
  around its OR alternatives, so \<open>now <= expires_at\<close> alone selects a row: deleting
  \<open>I_A\<close> as owner \<open>A\<close> returns \<open>S_A\<close>, a subscription of \<open>A\<close>.
\<close>

theorem delete_notifies_own_subscription:
  "map_sum id snd (fst (DeleteIdentificationServiceArea db_S5 1000 ''I_A'' ''A'')) =
     Inr [\<lparr>pbn_Url = ''https://a/isas'',
           pbn_Subscriptions = [\<lparr>pbn_NotificationIndex = 0, pbn_Subscription = ''S_A''\<rparr>]\<rparr>]
   \<and> sr_owner row_S_A = ''A'' \<and> isar_owner row_I_A = ''A''"
  by (simp add: example_defs Let_def DeleteIdentificationServiceArea_def
      getAffectedCellsAndSubscriptions_def leftJoin_def deleteIdentificationServiceAreaQuery_def
      getSubscriptionDetailsForAffectedCells_def getSubscriptionDetailsForAffectedCells_where_def
      sql_any_def sql_bool_def sql_is_null_def sql_le_def
      identificationServiceAreaRow_toProtobuf_def TimestampProto_def validateTimestamp_def
      minValidSeconds_def maxValidSeconds_def subscriberRow_toProtobuf_def)

text \<open>
  C9.  \<open>maxLoopArea\<close> computes \<open>sqMiEarth / 4 * \<pi>\<close>, which is \<open>(sqMiEarth / 4) * \<pi>\<close>
  and not \<open>sqMiEarth / (4\<pi>)\<close>: a loop of area \<open>1 / 50000\<close>, positive and within the
  bound of the specification, is rejected as too large.
\<close>

theorem covering_rejects_area_within_bound:
  "Covering (\<lambda>l. 1 / 50000) (\<lambda>l. [42]) () = Inl errAreaTooLarge
   \<and> 0 < (1 / 50000 :: real) \<and> 1 / 50000 \<le> maxLoopArea_spec"
proof -
  have p: "2 \<le> pi" by (rule pi_ge_two)
  have a: "maxLoopArea < 1 / 50000"
    using p by (simp add: maxLoopArea_def maxAllowedSqMi_def Let_def field_simps)
  have b: "1 / 50000 \<le> maxLoopArea_spec"
    using p by (simp add: maxLoopArea_spec_def maxAllowedSqMi_def field_simps)
  show ?thesis using a b by (simp add: Covering_def Let_def)
qed

subsection \<open>The join of the search and the cell index of \<open>pushSubscription\<close>\<close>

lemma filter_eq_distinct:
  "distinct us \<Longrightarrow> filter (\<lambda>u. x = u) us = (if x \<in> set us then [x] else [])"
  by (induction us) auto

lemma leftJoin_unique:
  assumes "distinct us"
  shows "map fst (filter (\<lambda>(r, u). P r) (leftJoin rows us (\<lambda>r u. key r = u))) = filter P rows"
proof (induction rows)
  case Nil
  show ?case by (simp add: leftJoin_def)
next
  case (Cons r rows)
  have "filter (\<lambda>u. key r = u) us = (if key r \<in> set us then [key r] else [])"
    using assms by (rule filter_eq_distinct)
  with Cons show ?case by (simp add: leftJoin_def)
qed

text \<open>
  The LEFT JOIN of the search keeps each subscription row once, so the query is the
  filter on the owner alone; the cells play no part.
\<close>

lemma subscriptionsInCellsQuery_all:
  "subscriptionsInCellsQuery d cells owner = filter (\<lambda>r. sr_owner r = owner) (subscriptions d)"
  unfolding subscriptionsInCellsQuery_def unique_subscription_ids_def
  by (rule leftJoin_unique) simp

lemma set_upsertRow_id: "set (upsertRow id x xs) = insert x (set xs)"
  by (induction xs) auto

lemma subscriptions_cellQueries:
  "subscriptions (foldl (\<lambda>dd c. subscriptionCellQuery dd c i) d cs) = subscriptions d"
  by (induction cs arbitrary: d) (simp_all add: subscriptionCellQuery_def)

lemma cells_cellQueries:
  "set (cells_subscriptions (foldl (\<lambda>dd c. subscriptionCellQuery dd c i) d cs)) =
     set (cells_subscriptions d) \<union> (\<lambda>c. (c, i)) ` set cs"
  by (induction cs arbitrary: d) (auto simp: subscriptionCellQuery_def set_upsertRow_id)

lemma fetchSubscription_single: "fetchSubscription [r] = Inr (scanSubscription r)"
  by (simp add: fetchSubscription_def fetchSubscriptions_def)

lemma scan_upsertQuery_row:
  "scanSubscription (upsertQuery_row d now s) = s\<lparr>s_Cells := None, s_UpdatedAt := Some now\<rparr>"
  by (cases s) (simp add: scanSubscription_def upsertQuery_row_def Let_def)

lemma upsertQuery_row_simps:
  "sr_id (upsertQuery_row d now s) = s_ID s"
  "sr_owner (upsertQuery_row d now s) = s_Owner s"
  "sr_beginsAt (upsertQuery_row d now s) = s_StartTime s"
  "sr_expiresAt (upsertQuery_row d now s) = s_EndTime s"
  "sr_updatedAt (upsertQuery_row d now s) = now"
  by (simp_all add: upsertQuery_row_def Let_def)

lemma pushSubscription_unfold:
  "pushSubscription d now s =
     (if \<not> checkWindow (s_StartTime s) (s_EndTime s) then Inl ErrCheckViolation
      else Inr (s\<lparr>s_UpdatedAt := Some now\<rparr>,
                deleteLeftOverCellsForSubscriptionQuery
                  (foldl (\<lambda>dd cid. subscriptionCellQuery dd cid (s_ID s))
                     (d\<lparr>subscriptions := upsertRow sr_id (upsertQuery_row d now s) (subscriptions d)\<rparr>)
                     (cellUnion (s_Cells s)))
                  (cellUnion (s_Cells s)) (s_ID s)))"
  by (cases s)
    (simp add: pushSubscription_def upsertQuery_def Let_def fetchSubscription_single
      scan_upsertQuery_row upsertQuery_row_simps)

lemma pushSubscription_subscriptions:
  assumes "pushSubscription d now s = Inr (s', d')"
  shows "s' = s\<lparr>s_UpdatedAt := Some now\<rparr>"
    and "checkWindow (s_StartTime s) (s_EndTime s)"
    and "subscriptions d' = upsertRow sr_id (upsertQuery_row d now s) (subscriptions d)"
  using assms unfolding pushSubscription_unfold
  by (auto simp: deleteLeftOverCellsForSubscriptionQuery_def subscriptions_cellQueries
      split: if_splits)

text \<open>
  After \<open>pushSubscription\<close> the index rows of the subscription are exactly its cells:
  the sweep removes the rows of cells that are no longer declared.
\<close>

lemma pushSubscription_cells:
  assumes "pushSubscription d now s = Inr (s', d')"
  shows "{c. (c, s_ID s') \<in> set (cells_subscriptions d')} = set (cellUnion (s_Cells s'))"
  using assms unfolding pushSubscription_unfold
  by (auto simp: deleteLeftOverCellsForSubscriptionQuery_def cells_cellQueries
      split: if_splits)

subsection \<open>Notification of the affected subscribers\<close>















subsection \<open>Overlays\<close>

text \<open>
  \<open>Apply\<close> returns the receiver with each non-empty field of the overlay in place of
  its own, and with the id and owner of the receiver whatever the overlay holds.
\<close>

lemma Apply_fields:
  "i_ID (Apply e ov) = i_ID e"
  "i_Owner (Apply e ov) = i_Owner e"
  "i_Url (Apply e ov) = (if i_Url ov \<noteq> [] then i_Url ov else i_Url e)"
  "i_Cells (Apply e ov) = (if i_Cells ov \<noteq> None then i_Cells ov else i_Cells e)"
  "i_StartTime (Apply e ov) = (if i_StartTime ov \<noteq> None then i_StartTime ov else i_StartTime e)"
  "i_EndTime (Apply e ov) = (if i_EndTime ov \<noteq> None then i_EndTime ov else i_EndTime e)"
  "i_UpdatedAt (Apply e ov) = (if i_UpdatedAt ov \<noteq> None then i_UpdatedAt ov else i_UpdatedAt e)"
  "i_AltitudeHi (Apply e ov) = (if i_AltitudeHi ov \<noteq> None then i_AltitudeHi ov else i_AltitudeHi e)"
  "i_AltitudeLo (Apply e ov) = (if i_AltitudeLo ov \<noteq> None then i_AltitudeLo ov else i_AltitudeLo e)"
  by (simp_all add: Apply_def Let_def)

lemma applyProtobuf_fields:
  "sr_id (fst (applyProtobuf r p)) = (if pbs_Id p \<noteq> [] then pbs_Id p else sr_id r)"
  "sr_owner (fst (applyProtobuf r p)) = (if pbs_Owner p \<noteq> [] then pbs_Owner p else sr_owner r)"
  "sr_url (fst (applyProtobuf r p)) =
       (if GetIdentificationServiceAreaUrl (pbs_Callbacks p) \<noteq> []
        then GetIdentificationServiceAreaUrl (pbs_Callbacks p) else sr_url r)"
  by (simp_all add: applyProtobuf_def Let_def split: option.splits sum.splits)

text \<open>
  C8.  \<open>IdentificationServiceArea.Apply\<close> does what the claim says (lemma
  \<open>Apply_fields\<close>).  \<open>subscriptionsRow.applyProtobuf\<close>, the merge step of
  \<open>updateSubscription\<close>, writes a non-empty owner of the message into the row, and the
  row is fetched by id alone: an update of \<open>S_B\<close>, owned by \<open>B\<close>, with a message that
  names \<open>A\<close> as owner commits, and \<open>S_B\<close> then belongs to \<open>A\<close>.
\<close>

theorem update_overwrites_owner:
  "sr_owner row_S_B = ''B''
   \<and> sr_owner (fst (applyProtobuf row_S_B takeover_S_B)) = ''A''
   \<and> updateSubscription db_S6 1000 takeover_S_B [42, 84] =
       (Inr \<lparr>pbs_Id = ''S_B'', pbs_Owner = ''A'', pbs_Callbacks = Some ''https://b/isas'',
             pbs_NotificationIndex = 0, pbs_Version = timestampToVersionString 1000,
             pbs_Begins = None, pbs_Expires = None\<rparr>,
        TxCommitted,
        db_S6\<lparr>subscriptions := [row_S_B\<lparr>sr_owner := ''A'', sr_updatedAt := 1000\<rparr>]\<rparr>)"
  by (simp add: example_defs Let_def updateSubscription_def versionOK_def v100 applyProtobuf_def
      GetIdentificationServiceAreaUrl_def updateQuery_def checkWindow_def
      subscriptionCellQuery_def subscriptionsRow_toProtobuf_def)

subsection \<open>Optimistic concurrency of \<open>UpdateSubscription\<close>\<close>

lemma filter_upsertRow:
  "distinct (map key xs) \<Longrightarrow>
     filter (\<lambda>x. key x = key r \<and> P x) (upsertRow key r xs) = (if P r then [r] else [])"
proof (induction xs)
  case Nil
  show ?case by simp
next
  case (Cons x xs)
  show ?case
  proof (cases "key x = key r")
    case True
    have "key r \<notin> set (map key xs)"
      using Cons.prems True by simp
    then have "\<forall>y \<in> set xs. key y \<noteq> key r"
      by (metis image_eqI set_map)
    then have "filter (\<lambda>x. key x = key r \<and> P x) xs = []"
      by (simp add: filter_empty_conv)
    with True show ?thesis by simp
  next
    case False
    with Cons show ?thesis by simp
  qed
qed

lemma version_injective:
  assumes "representable t" and "representable t'" and "t \<noteq> t'"
  shows "timestampToVersionString t \<noteq> timestampToVersionString t'"
proof
  assume "timestampToVersionString t = timestampToVersionString t'"
  then have "versionStringToTimestamp (timestampToVersionString t)
      = versionStringToTimestamp (timestampToVersionString t')"
    by simp
  then have "t = t'"
    using assms(1,2) by (simp add: decode_encode Unix_UnixNano)
  with assms(3) show False by simp
qed

lemma timestampToVersionString_nonempty: "timestampToVersionString t \<noteq> []"
  by (simp add: timestampToVersionString_def FormatUint_def formatBits_nonempty)

lemma Subscription_Apply_frame:
  "s_ID (Subscription_Apply a s) = s_ID a"
  "s_Owner (Subscription_Apply a s) = s_Owner a"
  by (simp_all add: Subscription_Apply_def Let_def)

lemma Subscription_Apply_window:
  "s_StartTime (Subscription_Apply (a\<lparr>s_Cells := c\<rparr>) s) = s_StartTime (Subscription_Apply a s)"
  "s_EndTime (Subscription_Apply (a\<lparr>s_Cells := c\<rparr>) s) = s_EndTime (Subscription_Apply a s)"
  by (simp_all add: Subscription_Apply_def Let_def)

lemma committed_push:
  assumes "UpdateSubscription d t0 s0 = (Inr s1, TxCommitted, d1)
           \<or> InsertSubscription d t0 s0 = (Inr s1, TxCommitted, d1)"
  shows "\<exists>p. pushSubscription d t0 p = Inr (s1, d1)"
  using assms
  by (auto simp: UpdateSubscription_def InsertSubscription_def
      split: sum.splits if_splits prod.splits)

lemma fetch_after_push:
  assumes pk: "distinct (map sr_id (subscriptions d))"
    and push: "pushSubscription d t0 p = Inr (s1, d1)"
  shows "fetchSubscriptionByIDAndOwner d1 (s_ID s1) (s_Owner s1) = Inr (s1\<lparr>s_Cells := None\<rparr>)"
    and "s_UpdatedAt s1 = Some t0"
proof -
  note f = pushSubscription_subscriptions [OF push]
  let ?r = "upsertQuery_row d t0 p"
  have ids: "s_ID s1 = sr_id ?r" "s_Owner s1 = sr_owner ?r"
    by (simp_all add: f(1) upsertQuery_row_simps)
  have "filter (\<lambda>x. sr_id x = sr_id ?r \<and> sr_owner x = sr_owner ?r) (subscriptions d1) = [?r]"
    unfolding f(3) using filter_upsertRow [OF pk, of ?r "\<lambda>x. sr_owner x = sr_owner ?r"] by simp
  then show "fetchSubscriptionByIDAndOwner d1 (s_ID s1) (s_Owner s1) = Inr (s1\<lparr>s_Cells := None\<rparr>)"
    unfolding fetchSubscriptionByIDAndOwner_def ids
    by (simp add: fetchSubscription_single scan_upsertQuery_row f(1))
  show "s_UpdatedAt s1 = Some t0" by (simp add: f(1))
qed

text \<open>
  C5.  Let the most recent committed mutation of a subscription, an update or the insert,
  have returned \<open>s1\<close> and left the database \<open>d1\<close>, the ids of the table being unique
  before it.  An update of that subscription by its owner that carries the version of
  \<open>s1\<close> and whose merged time window the schema accepts commits, and returns the version
  of its own transaction time.  An update that carries any other version, in particular
  the version of any earlier representable \<open>updated_at\<close>, returns \<open>VersionMismatch\<close>,
  rolled back, and the database is \<open>d1\<close> as before.
\<close>

theorem update_version_check:
  assumes pk: "distinct (map sr_id (subscriptions d))"
    and prev: "UpdateSubscription d t0 s0 = (Inr s1, TxCommitted, d1)
               \<or> InsertSubscription d t0 s0 = (Inr s1, TxCommitted, d1)"
    and same: "s_ID s = s_ID s1 \<and> s_Owner s = s_Owner s1"
  shows "(Subscription_Version s = Subscription_Version s1
            \<and> checkWindow (s_StartTime (Subscription_Apply s1 s)) (s_EndTime (Subscription_Apply s1 s))
          \<longrightarrow> (\<exists>s2 d2. UpdateSubscription d1 t1 s = (Inr s2, TxCommitted, d2)
                  \<and> Subscription_Version s2 = timestampToVersionString t1))
       \<and> (Subscription_Version s \<noteq> Subscription_Version s1
          \<longrightarrow> UpdateSubscription d1 t1 s = (Inl VersionMismatch, TxRolledBack, d1))
       \<and> (\<forall>t. s_UpdatedAt s = Some t \<and> t < t0 \<and> representable t \<and> representable t0
          \<longrightarrow> UpdateSubscription d1 t1 s = (Inl VersionMismatch, TxRolledBack, d1))"
proof -
  from committed_push [OF prev] obtain p where push: "pushSubscription d t0 p = Inr (s1, d1)" ..
  note old = fetch_after_push [OF pk push]
  let ?old = "s1\<lparr>s_Cells := None\<rparr>"
  have fetch: "fetchSubscriptionByIDAndOwner d1 (s_ID s) (s_Owner s) = Inr ?old"
    using old(1) same by simp
  have vold: "Subscription_Version ?old = Subscription_Version s1"
    by (simp add: Subscription_Version_def)
  have mismatch: "UpdateSubscription d1 t1 s = (Inl VersionMismatch, TxRolledBack, d1)"
    if "Subscription_Version s \<noteq> Subscription_Version s1"
    using that by (simp add: UpdateSubscription_def fetch vold)
  have ok: "\<exists>s2 d2. UpdateSubscription d1 t1 s = (Inr s2, TxCommitted, d2)
                  \<and> Subscription_Version s2 = timestampToVersionString t1"
    if v: "Subscription_Version s = Subscription_Version s1"
      and w: "checkWindow (s_StartTime (Subscription_Apply s1 s)) (s_EndTime (Subscription_Apply s1 s))"
  proof -
    have "checkWindow (s_StartTime (Subscription_Apply ?old s)) (s_EndTime (Subscription_Apply ?old s))"
      using w by (simp add: Subscription_Apply_window)
    then show ?thesis
      using v by (simp add: UpdateSubscription_def fetch vold pushSubscription_unfold
          Subscription_Version_def)
  qed
  have older: "Subscription_Version s \<noteq> Subscription_Version s1"
    if "s_UpdatedAt s = Some t" "t < t0" "representable t" "representable t0" for t
    using that old(2) version_injective [of t t0] by (simp add: Subscription_Version_def)
  show ?thesis
    using ok mismatch older by blast
qed

theorem update_version_check_witness:
  "distinct (map sr_id (subscriptions db_S6))
   \<and> UpdateSubscription db_S6 1000 model_update_S_B = (Inr updated_S_B, TxCommitted, db_S6_updated)
   \<and> (\<exists>s2 d2. UpdateSubscription db_S6_updated 2000 updated_S_B = (Inr s2, TxCommitted, d2)
         \<and> Subscription_Version s2 = timestampToVersionString 2000)
   \<and> UpdateSubscription db_S6_updated 2000 model_update_S_B
       = (Inl VersionMismatch, TxRolledBack, db_S6_updated)"
proof -
  have pk: "distinct (map sr_id (subscriptions db_S6))"
    by (simp add: example_defs)
  have prev: "UpdateSubscription db_S6 1000 model_update_S_B
      = (Inr updated_S_B, TxCommitted, db_S6_updated)"
    by (simp add: example_defs UpdateSubscription_def fetchSubscriptionByIDAndOwner_def
        fetchSubscription_def fetchSubscriptions_def scanSubscription_def
        Subscription_Version_def Subscription_Apply_def Let_def pushSubscription_def
        upsertQuery_def upsertQuery_row_def checkWindow_def cellUnion_def
        subscriptionCellQuery_def deleteLeftOverCellsForSubscriptionQuery_def)
  have a: "s_ID updated_S_B = s_ID updated_S_B \<and> s_Owner updated_S_B = s_Owner updated_S_B"
    by simp
  have b: "s_ID model_update_S_B = s_ID updated_S_B \<and> s_Owner model_update_S_B = s_Owner updated_S_B"
    by (simp add: example_defs)
  have w: "checkWindow (s_StartTime (Subscription_Apply updated_S_B updated_S_B))
      (s_EndTime (Subscription_Apply updated_S_B updated_S_B))"
    by (simp add: example_defs Subscription_Apply_def Let_def checkWindow_def)
  have o: "s_UpdatedAt model_update_S_B = Some 100 \<and> (100::int) < 1000
      \<and> representable 100 \<and> representable 1000"
    by (simp add: example_defs representable_def)
  from update_version_check [OF pk disjI1 [OF prev] a, of 2000] w
  have 1: "\<exists>s2 d2. UpdateSubscription db_S6_updated 2000 updated_S_B = (Inr s2, TxCommitted, d2)
         \<and> Subscription_Version s2 = timestampToVersionString 2000"
    by blast
  from update_version_check [OF pk disjI1 [OF prev] b, of 2000] o
  have 2: "UpdateSubscription db_S6_updated 2000 model_update_S_B
       = (Inl VersionMismatch, TxRolledBack, db_S6_updated)"
    by blast
  from pk prev 1 2 show ?thesis by blast
qed

text \<open>
  The row-based \<open>updateSubscription\<close> makes the same comparison through \<open>versionOK\<close>:
  a non-empty version other than the current one ends the update with the version
  mismatch error, rolled back, the database unchanged.
\<close>

lemma updateSubscription_version_mismatch:
  assumes "filter (\<lambda>r. sr_id r = pbs_Id subscription) (subscriptions d) = sr # rest"
    and "pbs_Version subscription \<noteq> []"
    and "pbs_Version subscription \<noteq> timestampToVersionString (sr_updatedAt sr)"
  shows "updateSubscription d now subscription cells =
     (Inl (ErrMessage (''version mismatch for subscription '' @ pbs_Id subscription)),
      TxRolledBack, d)"
  using assms by (simp add: updateSubscription_def versionOK_def)

end
